theory Spec2Isabelle
  imports Complex_Main "HOL-Library.Sublist"
begin

section \<open>Data model\<close>

text \<open>
  The four tables of \<^verbatim>\<open>app.py\<close>. A row is a record with the columns of the model class.
  Column names that occur in more than one table carry a prefix here, because record
  fields are constants: \<open>prescription_doctor_id\<close> is \<^verbatim>\<open>Prescription.doctor_id\<close>,
  \<open>detail_id\<close>, \<open>detail_prescription_id\<close>, \<open>detail_drug_name\<close> and \<open>detail_price\<close> are
  the columns \<^verbatim>\<open>id\<close>, \<^verbatim>\<open>prescription_id\<close>, \<^verbatim>\<open>drug_name\<close> and \<^verbatim>\<open>price\<close> of
  \<^verbatim>\<open>PrescriptionDetail\<close>.

  The type \<open>'p\<close> stands for the numbers of a \<^verbatim>\<open>Float\<close> column. Nothing is assumed about
  them: the three operations the program applies to such values are passed in as a record
  \<open>'p arith\<close>, so every result below holds for any arithmetic, rounding or not. The price
  columns are nullable and no route checks a price, so a price is a \<open>'p option\<close>, with
  \<open>None\<close> for \<^verbatim>\<open>NULL\<close> (JSON \<^verbatim>\<open>null\<close>). \<^verbatim>\<open>total_fee\<close> is only ever written with a
  number. Integer columns hold unbounded \<open>int\<close>, as Python's integers are; a \<^verbatim>\<open>NULL\<close>
  stock and an integer outside the range of the database column are not modelled.
  Strings are compared by equality.
\<close>

record 'p Drug =
  drug_name :: string
  price :: "'p option"
  stock :: int

record Doctor =
  doctor_id :: string
  doctor_name :: string

record 'p Prescription =
  prescription_id :: string
  prescription_doctor_id :: string
  total_fee :: 'p

record 'p PrescriptionDetail =
  detail_id :: int
  detail_prescription_id :: string
  detail_drug_name :: string
  quantity :: int
  detail_price :: "'p option"

text \<open>
  The database. A table is the list of its rows in storage order, and a query returns the
  rows in that order. \<open>next_detail_id\<close> is the counter behind the autoincrement primary
  key of \<^verbatim>\<open>prescription_details\<close>.
\<close>

record 'p store =
  drugs :: "'p Drug list"
  doctors :: "Doctor list"
  prescriptions :: "'p Prescription list"
  prescription_details :: "'p PrescriptionDetail list"
  next_detail_id :: int

text \<open>
  Arithmetic on \<^verbatim>\<open>Float\<close> values: \<open>num_zero\<close> is the \<^verbatim>\<open>0\<close> that \<^verbatim>\<open>sum\<close> starts from
  and that \<^verbatim>\<open>total_fee\<close> defaults to, \<open>num_add\<close> is \<^verbatim>\<open>+\<close>, and \<open>num_mul\<close> is
  \<^verbatim>\<open>quantity * price\<close> (an integer times a float).
\<close>

record 'p arith =
  num_zero :: 'p
  num_add :: "'p \<Rightarrow> 'p \<Rightarrow> 'p"
  num_mul :: "int \<Rightarrow> 'p \<Rightarrow> 'p"

section \<open>Exceptions and responses\<close>

text \<open>
  The exceptions the program distinguishes, each with its message (\<^verbatim>\<open>str(e)\<close>).
\<close>

datatype exn = OperationalError string | IntegrityError string | OtherException string

fun str :: "exn \<Rightarrow> string" where
  "str (OperationalError m) = m"
| "str (IntegrityError m) = m"
| "str (OtherException m) = m"

text \<open>
  \<^verbatim>\<open>quantity * price\<close> raises \<^verbatim>\<open>TypeError\<close> when the price is \<^verbatim>\<open>None\<close>. \<^verbatim>\<open>sum\<close> takes
  the items of the generator one by one, adding each to the running total, which starts
  at \<^verbatim>\<open>0\<close>; an item that raises ends the sum with that exception.
\<close>

definition py_mul :: "'p arith \<Rightarrow> int \<Rightarrow> 'p option \<Rightarrow> exn + 'p" where
  "py_mul A q pr =
     (case pr of None \<Rightarrow> Inl (OtherException ''TypeError'') | Some x \<Rightarrow> Inr (num_mul A q x))"

fun py_sum_from :: "'p arith \<Rightarrow> 'p \<Rightarrow> (exn + 'p) list \<Rightarrow> exn + 'p" where
  "py_sum_from A acc [] = Inr acc"
| "py_sum_from A acc (Inl e # items) = Inl e"
| "py_sum_from A acc (Inr x # items) = py_sum_from A (num_add A acc x) items"

definition py_sum :: "'p arith \<Rightarrow> (exn + 'p) list \<Rightarrow> exn + 'p" where
  "py_sum A items = py_sum_from A (num_zero A) items"

text \<open>
  The error bodies of the JSON responses, one constructor per message of the source; a
  count or a stock that the body carries is the constructor's argument.
\<close>

datatype err =
    DrugExists
  | DrugMissing
  | DrugHasDetails nat
  | DoctorExists
  | DoctorMissing
  | DoctorHasPrescriptions nat
  | PrescriptionIdEmpty
  | DoctorIdEmpty
  | PrescriptionExists
  | PrescriptionMissing
  | DrugNameEmpty
  | QuantityNotPositive
  | StockInsufficient int
  | AddDrugFailed string
  | AddDoctorFailed string
  | CreatePrescriptionFailed string
  | AddDetailFailed string
  | InternalServerError

datatype 'p body =
    DrugList "'p Drug list"
  | DrugJson "'p Drug"
  | DrugAdded "'p Drug"
  | DrugUpdated "'p Drug"
  | DrugDeleted
  | DoctorList "Doctor list"
  | DoctorJson Doctor
  | DoctorAdded Doctor
  | DoctorUpdated Doctor
  | DoctorDeleted
  | PrescriptionList "'p Prescription list"
  | PrescriptionJson "'p Prescription"
  | PrescriptionCreated "'p Prescription"
  | PrescriptionDeleted
  | DetailList "'p PrescriptionDetail list"
  | DetailAdded "'p PrescriptionDetail"
  | TotalCalculated 'p

text \<open>\<open>Ok b\<close> is a response with status 200; \<open>Error c e\<close> has status \<open>c\<close>.\<close>

datatype 'p response = Ok "'p body" | Error nat err

section \<open>The retry wrapper\<close>

text \<open>
  A unit of work \<^verbatim>\<open>func\<close> runs on a state and either returns a value or raises. What the
  wrapper does besides is recorded as a list of events: each call of \<^verbatim>\<open>func\<close>, each
  \<^verbatim>\<open>print\<close> (with the attempt number and the bound) and each \<^verbatim>\<open>time.sleep\<close>.
\<close>

datatype event = Invoke | Print nat nat | Sleep nat

definition lost_connection :: string where
  "lost_connection = ''Lost connection to MySQL server''"

text \<open>
  The body of the \<^verbatim>\<open>for attempt in range(max_retries)\<close> loop, over the attempts that
  remain. When the loop runs out the function returns Python's \<^verbatim>\<open>None\<close>, here
  \<open>Inr None\<close>.
\<close>

fun retry_loop ::
  "('s \<Rightarrow> (exn + 'a) \<times> 's) \<Rightarrow> nat \<Rightarrow> nat \<Rightarrow> nat list \<Rightarrow> 's \<Rightarrow> (exn + 'a option) \<times> 's \<times> event list"
where
  "retry_loop func max_retries delay [] s = (Inr None, s, [])"
| "retry_loop func max_retries delay (attempt # rest) s =
     (case func s of
        (Inr v, s') \<Rightarrow> (Inr (Some v), s', [Invoke])
      | (Inl e, s') \<Rightarrow>
          (case e of
             OperationalError m \<Rightarrow>
               if sublist lost_connection (str e) \<and> int attempt < int max_retries - 1
               then (case retry_loop func max_retries delay rest s' of
                       (r, s'', tr) \<Rightarrow>
                         (r, s'', Invoke # Print (attempt + 1) max_retries # Sleep delay # tr))
               else (Inl e, s', [Invoke])
           | _ \<Rightarrow> (Inl e, s', [Invoke])))"

definition execute_with_retry ::
  "('s \<Rightarrow> (exn + 'a) \<times> 's) \<Rightarrow> nat \<Rightarrow> nat \<Rightarrow> 's \<Rightarrow> (exn + 'a option) \<times> 's \<times> event list"
where
  "execute_with_retry func max_retries delay s =
     retry_loop func max_retries delay [0..<max_retries] s"

text \<open>
  A view without a \<^verbatim>\<open>try\<close> of its own: an exception that leaves it, or a view that
  returns \<^verbatim>\<open>None\<close>, reaches the handler registered for status 500.
\<close>

fun internal_error :: "(exn + 'p response option) \<times> 's \<times> event list \<Rightarrow> 'p response \<times> 's" where
  "internal_error (Inr (Some r), s, tr) = (r, s)"
| "internal_error (Inr None, s, tr) = (Error 500 InternalServerError, s)"
| "internal_error (Inl e, s, tr) = (Error 500 InternalServerError, s)"

section \<open>Drugs\<close>

text \<open>
  Each view is \<^verbatim>\<open>execute_with_retry\<close> applied to its inner function, with the defaults
  \<^verbatim>\<open>max_retries=3\<close> and \<^verbatim>\<open>delay=2\<close>. An inner function reads and writes the store and
  returns the response; the store it returns is the committed one. Inner functions called
  \<^verbatim>\<open>update\<close> or \<^verbatim>\<open>delete\<close> in the source carry the name of their view as a prefix.
  \<^verbatim>\<open>filter_by(...).first()\<close> is \<open>find\<close>, \<^verbatim>\<open>filter_by(...).all()\<close> is \<open>filter\<close>.
\<close>

definition query_drugs :: "'p store \<Rightarrow> (exn + 'p response) \<times> 'p store" where
  "query_drugs s = (Inr (Ok (DrugList (drugs s))), s)"

definition get_drugs :: "'p store \<Rightarrow> 'p response \<times> 'p store" where
  "get_drugs s = internal_error (execute_with_retry query_drugs 3 2 s)"

text \<open>
  The commit of a row whose primary key is already in the table raises
  \<^verbatim>\<open>IntegrityError\<close> and writes nothing.
\<close>

definition insert_drug :: "string \<Rightarrow> 'p option \<Rightarrow> int \<Rightarrow> 'p store \<Rightarrow> (exn + 'p response) \<times> 'p store" where
  "insert_drug name p st s =
     (let drug = \<lparr>drug_name = name, price = p, stock = st\<rparr>
      in if name \<in> set (map drug_name (drugs s))
         then (Inl (IntegrityError ''Duplicate entry''), s)
         else (Inr (Ok (DrugAdded drug)), s\<lparr>drugs := drugs s @ [drug]\<rparr>))"

definition add_drug :: "string \<Rightarrow> 'p option \<Rightarrow> int \<Rightarrow> 'p store \<Rightarrow> 'p response \<times> 'p store" where
  "add_drug name p st s =
     (case execute_with_retry (insert_drug name p st) 3 2 s of
        (Inr (Some r), s', tr) \<Rightarrow> (r, s')
      | (Inr None, s', tr) \<Rightarrow> (Error 500 InternalServerError, s')
      | (Inl (IntegrityError m), s', tr) \<Rightarrow> (Error 400 DrugExists, s')
      | (Inl e, s', tr) \<Rightarrow> (Error 500 (AddDrugFailed (str e)), s'))"

definition query_drug :: "string \<Rightarrow> 'p store \<Rightarrow> (exn + 'p response) \<times> 'p store" where
  "query_drug name s =
     (case find (\<lambda>d. drug_name d = name) (drugs s) of
        Some drug \<Rightarrow> (Inr (Ok (DrugJson drug)), s)
      | None \<Rightarrow> (Inr (Error 404 DrugMissing), s))"

definition get_drug :: "string \<Rightarrow> 'p store \<Rightarrow> 'p response \<times> 'p store" where
  "get_drug name s = internal_error (execute_with_retry (query_drug name) 3 2 s)"

text \<open>
  The body of an update request: a field is \<open>None\<close> when its key is not in the body
  (\<^verbatim>\<open>'price' in data\<close> is false). A price that is present is a number or \<^verbatim>\<open>null\<close>.
\<close>

record 'p drug_data =
  data_price :: "'p option option"
  data_stock :: "int option"

definition update_drug_update ::
  "string \<Rightarrow> 'p drug_data \<Rightarrow> 'p store \<Rightarrow> (exn + 'p response) \<times> 'p store" where
  "update_drug_update name data s =
     (case find (\<lambda>d. drug_name d = name) (drugs s) of
        None \<Rightarrow> (Inr (Error 404 DrugMissing), s)
      | Some drug \<Rightarrow>
          (let drug1 = (case data_price data of Some p \<Rightarrow> drug\<lparr>price := p\<rparr> | None \<Rightarrow> drug);
               drug2 = (case data_stock data of Some st \<Rightarrow> drug1\<lparr>stock := st\<rparr> | None \<Rightarrow> drug1)
           in (Inr (Ok (DrugUpdated drug2)),
               s\<lparr>drugs := map (\<lambda>d. if drug_name d = name then drug2 else d) (drugs s)\<rparr>)))"

definition update_drug :: "string \<Rightarrow> 'p drug_data \<Rightarrow> 'p store \<Rightarrow> 'p response \<times> 'p store" where
  "update_drug name data s =
     internal_error (execute_with_retry (update_drug_update name data) 3 2 s)"

definition delete_drug_delete :: "string \<Rightarrow> 'p store \<Rightarrow> (exn + 'p response) \<times> 'p store" where
  "delete_drug_delete name s =
     (case find (\<lambda>d. drug_name d = name) (drugs s) of
        None \<Rightarrow> (Inr (Error 404 DrugMissing), s)
      | Some drug \<Rightarrow>
          (let details = filter (\<lambda>d. detail_drug_name d = name) (prescription_details s)
           in if details \<noteq> []
              then (Inr (Error 400 (DrugHasDetails (length details))), s)
              else (Inr (Ok DrugDeleted),
                    s\<lparr>drugs := filter (\<lambda>d. drug_name d \<noteq> name) (drugs s)\<rparr>)))"

definition delete_drug :: "string \<Rightarrow> 'p store \<Rightarrow> 'p response \<times> 'p store" where
  "delete_drug name s = internal_error (execute_with_retry (delete_drug_delete name) 3 2 s)"

section \<open>Doctors\<close>

definition query_doctors :: "'p store \<Rightarrow> (exn + 'p response) \<times> 'p store" where
  "query_doctors s = (Inr (Ok (DoctorList (doctors s))), s)"

definition get_doctors :: "'p store \<Rightarrow> 'p response \<times> 'p store" where
  "get_doctors s = internal_error (execute_with_retry query_doctors 3 2 s)"

definition insert_doctor :: "string \<Rightarrow> string \<Rightarrow> 'p store \<Rightarrow> (exn + 'p response) \<times> 'p store" where
  "insert_doctor did name s =
     (let doctor = \<lparr>doctor_id = did, doctor_name = name\<rparr>
      in if did \<in> set (map doctor_id (doctors s))
         then (Inl (IntegrityError ''Duplicate entry''), s)
         else (Inr (Ok (DoctorAdded doctor)), s\<lparr>doctors := doctors s @ [doctor]\<rparr>))"

definition add_doctor :: "string \<Rightarrow> string \<Rightarrow> 'p store \<Rightarrow> 'p response \<times> 'p store" where
  "add_doctor did name s =
     (case execute_with_retry (insert_doctor did name) 3 2 s of
        (Inr (Some r), s', tr) \<Rightarrow> (r, s')
      | (Inr None, s', tr) \<Rightarrow> (Error 500 InternalServerError, s')
      | (Inl (IntegrityError m), s', tr) \<Rightarrow> (Error 400 DoctorExists, s')
      | (Inl e, s', tr) \<Rightarrow> (Error 500 (AddDoctorFailed (str e)), s'))"

definition query_doctor :: "string \<Rightarrow> 'p store \<Rightarrow> (exn + 'p response) \<times> 'p store" where
  "query_doctor did s =
     (case find (\<lambda>d. doctor_id d = did) (doctors s) of
        Some doctor \<Rightarrow> (Inr (Ok (DoctorJson doctor)), s)
      | None \<Rightarrow> (Inr (Error 404 DoctorMissing), s))"

definition get_doctor :: "string \<Rightarrow> 'p store \<Rightarrow> 'p response \<times> 'p store" where
  "get_doctor did s = internal_error (execute_with_retry (query_doctor did) 3 2 s)"

definition update_doctor_update ::
  "string \<Rightarrow> string option \<Rightarrow> 'p store \<Rightarrow> (exn + 'p response) \<times> 'p store" where
  "update_doctor_update did data_name s =
     (case find (\<lambda>d. doctor_id d = did) (doctors s) of
        None \<Rightarrow> (Inr (Error 404 DoctorMissing), s)
      | Some doctor \<Rightarrow>
          (let doctor1 = (case data_name of Some n \<Rightarrow> doctor\<lparr>doctor_name := n\<rparr> | None \<Rightarrow> doctor)
           in (Inr (Ok (DoctorUpdated doctor1)),
               s\<lparr>doctors := map (\<lambda>d. if doctor_id d = did then doctor1 else d) (doctors s)\<rparr>)))"

definition update_doctor :: "string \<Rightarrow> string option \<Rightarrow> 'p store \<Rightarrow> 'p response \<times> 'p store" where
  "update_doctor did data_name s =
     internal_error (execute_with_retry (update_doctor_update did data_name) 3 2 s)"

definition delete_doctor_delete :: "string \<Rightarrow> 'p store \<Rightarrow> (exn + 'p response) \<times> 'p store" where
  "delete_doctor_delete did s =
     (case find (\<lambda>d. doctor_id d = did) (doctors s) of
        None \<Rightarrow> (Inr (Error 404 DoctorMissing), s)
      | Some doctor \<Rightarrow>
          (let ps = filter (\<lambda>p. prescription_doctor_id p = did) (prescriptions s)
           in if ps \<noteq> []
              then (Inr (Error 400 (DoctorHasPrescriptions (length ps))), s)
              else (Inr (Ok DoctorDeleted),
                    s\<lparr>doctors := filter (\<lambda>d. doctor_id d \<noteq> did) (doctors s)\<rparr>)))"

definition delete_doctor :: "string \<Rightarrow> 'p store \<Rightarrow> 'p response \<times> 'p store" where
  "delete_doctor did s = internal_error (execute_with_retry (delete_doctor_delete did) 3 2 s)"

section \<open>Prescriptions\<close>

definition query_prescriptions :: "'p store \<Rightarrow> (exn + 'p response) \<times> 'p store" where
  "query_prescriptions s = (Inr (Ok (PrescriptionList (prescriptions s))), s)"

definition get_prescriptions :: "'p store \<Rightarrow> 'p response \<times> 'p store" where
  "get_prescriptions s = internal_error (execute_with_retry query_prescriptions 3 2 s)"

text \<open>
  \<^verbatim>\<open>not data.get(key)\<close> for a string field: the key is missing or the string is empty.
\<close>

fun falsy :: "string option \<Rightarrow> bool" where
  "falsy None = True"
| "falsy (Some v) = (v = [])"

definition insert_prescription ::
  "'p arith \<Rightarrow> string \<Rightarrow> string \<Rightarrow> 'p store \<Rightarrow> (exn + 'p response) \<times> 'p store" where
  "insert_prescription A pid did s =
     (case find (\<lambda>p. prescription_id p = pid) (prescriptions s) of
        Some existing_prescription \<Rightarrow> (Inr (Error 400 PrescriptionExists), s)
      | None \<Rightarrow>
          (case find (\<lambda>d. doctor_id d = did) (doctors s) of
             None \<Rightarrow> (Inr (Error 400 DoctorMissing), s)
           | Some doctor \<Rightarrow>
               (let prescription =
                      \<lparr>prescription_id = pid, prescription_doctor_id = did, total_fee = num_zero A\<rparr>
                in (Inr (Ok (PrescriptionCreated prescription)),
                    s\<lparr>prescriptions := prescriptions s @ [prescription]\<rparr>))))"

definition add_prescription ::
  "'p arith \<Rightarrow> string option \<Rightarrow> string option \<Rightarrow> 'p store \<Rightarrow> 'p response \<times> 'p store" where
  "add_prescription A data_pid data_did s =
     (if falsy data_pid then (Error 400 PrescriptionIdEmpty, s)
      else if falsy data_did then (Error 400 DoctorIdEmpty, s)
      else
        (case execute_with_retry (insert_prescription A (the data_pid) (the data_did)) 3 2 s of
           (Inr (Some r), s', tr) \<Rightarrow> (r, s')
         | (Inr None, s', tr) \<Rightarrow> (Error 500 InternalServerError, s')
         | (Inl e, s', tr) \<Rightarrow> (Error 500 (CreatePrescriptionFailed (str e)), s')))"

definition query_prescription :: "string \<Rightarrow> 'p store \<Rightarrow> (exn + 'p response) \<times> 'p store" where
  "query_prescription pid s =
     (case find (\<lambda>p. prescription_id p = pid) (prescriptions s) of
        Some prescription \<Rightarrow> (Inr (Ok (PrescriptionJson prescription)), s)
      | None \<Rightarrow> (Inr (Error 404 PrescriptionMissing), s))"

definition get_prescription :: "string \<Rightarrow> 'p store \<Rightarrow> 'p response \<times> 'p store" where
  "get_prescription pid s = internal_error (execute_with_retry (query_prescription pid) 3 2 s)"

definition delete_prescription_delete ::
  "string \<Rightarrow> 'p store \<Rightarrow> (exn + 'p response) \<times> 'p store" where
  "delete_prescription_delete pid s =
     (case find (\<lambda>p. prescription_id p = pid) (prescriptions s) of
        None \<Rightarrow> (Inr (Error 404 PrescriptionMissing), s)
      | Some prescription \<Rightarrow>
          (Inr (Ok PrescriptionDeleted),
           s\<lparr>prescription_details :=
                filter (\<lambda>d. detail_prescription_id d \<noteq> pid) (prescription_details s),
              prescriptions := filter (\<lambda>p. prescription_id p \<noteq> pid) (prescriptions s)\<rparr>))"

definition delete_prescription :: "string \<Rightarrow> 'p store \<Rightarrow> 'p response \<times> 'p store" where
  "delete_prescription pid s =
     internal_error (execute_with_retry (delete_prescription_delete pid) 3 2 s)"

section \<open>Prescription details and the total fee\<close>

definition query_details :: "string \<Rightarrow> 'p store \<Rightarrow> (exn + 'p response) \<times> 'p store" where
  "query_details pid s =
     (let details = filter (\<lambda>d. detail_prescription_id d = pid) (prescription_details s)
      in (Inr (Ok (DetailList details)), s))"

definition get_prescription_details :: "string \<Rightarrow> 'p store \<Rightarrow> 'p response \<times> 'p store" where
  "get_prescription_details pid s =
     internal_error (execute_with_retry (query_details pid) 3 2 s)"

definition insert_detail ::
  "string \<Rightarrow> string \<Rightarrow> int \<Rightarrow> 'p store \<Rightarrow> (exn + 'p response) \<times> 'p store" where
  "insert_detail pid dname qty s =
     (case find (\<lambda>p. prescription_id p = pid) (prescriptions s) of
        None \<Rightarrow> (Inr (Error 400 PrescriptionMissing), s)
      | Some prescription \<Rightarrow>
          (case find (\<lambda>d. drug_name d = dname) (drugs s) of
             None \<Rightarrow> (Inr (Error 400 DrugMissing), s)
           | Some drug \<Rightarrow>
               if stock drug < qty
               then (Inr (Error 400 (StockInsufficient (stock drug))), s)
               else
                 (let detail =
                        \<lparr>detail_id = next_detail_id s, detail_prescription_id = pid,
                         detail_drug_name = dname, quantity = qty, detail_price = price drug\<rparr>
                  in (Inr (Ok (DetailAdded detail)),
                      s\<lparr>prescription_details := prescription_details s @ [detail],
                        next_detail_id := next_detail_id s + 1,
                        drugs := map (\<lambda>d. if drug_name d = dname
                                           then drug\<lparr>stock := stock drug - qty\<rparr> else d)
                                     (drugs s)\<rparr>))))"

text \<open>
  The body of the request: \<open>data_drug_name\<close> and \<open>data_quantity\<close> are \<open>None\<close> when the key
  is missing. \<^verbatim>\<open>not data.get('quantity')\<close> holds for a missing key and for \<^verbatim>\<open>0\<close>.
\<close>

record detail_data =
  data_drug_name :: "string option"
  data_quantity :: "int option"

definition add_prescription_detail ::
  "string \<Rightarrow> detail_data \<Rightarrow> 'p store \<Rightarrow> 'p response \<times> 'p store" where
  "add_prescription_detail pid data s =
     (if falsy (data_drug_name data) then (Error 400 DrugNameEmpty, s)
      else
        (case data_quantity data of
           None \<Rightarrow> (Error 400 QuantityNotPositive, s)
         | Some qty \<Rightarrow>
             if qty = 0 \<or> qty \<le> 0 then (Error 400 QuantityNotPositive, s)
             else
               (case execute_with_retry (insert_detail pid (the (data_drug_name data)) qty) 3 2 s of
                  (Inr (Some r), s', tr) \<Rightarrow> (r, s')
                | (Inr None, s', tr) \<Rightarrow> (Error 500 InternalServerError, s')
                | (Inl e, s', tr) \<Rightarrow> (Error 500 (AddDetailFailed (str e)), s'))))"

definition calculate :: "'p arith \<Rightarrow> string \<Rightarrow> 'p store \<Rightarrow> (exn + 'p response) \<times> 'p store" where
  "calculate A pid s =
     (case find (\<lambda>p. prescription_id p = pid) (prescriptions s) of
        None \<Rightarrow> (Inr (Error 404 PrescriptionMissing), s)
      | Some prescription \<Rightarrow>
          (let details = filter (\<lambda>d. detail_prescription_id d = pid) (prescription_details s)
           in case py_sum A (map (\<lambda>d. py_mul A (quantity d) (detail_price d)) details) of
                Inl e \<Rightarrow> (Inl e, s)
              | Inr fee \<Rightarrow>
                  (Inr (Ok (TotalCalculated fee)),
                   s\<lparr>prescriptions :=
                        map (\<lambda>p. if prescription_id p = pid
                                 then prescription\<lparr>total_fee := fee\<rparr> else p)
                            (prescriptions s)\<rparr>)))"

definition calculate_prescription :: "'p arith \<Rightarrow> string \<Rightarrow> 'p store \<Rightarrow> 'p response \<times> 'p store" where
  "calculate_prescription A pid s =
     internal_error (execute_with_retry (calculate A pid) 3 2 s)"

section \<open>The interface as a whole\<close>

text \<open>One constructor per route of the application, with the route's inputs.\<close>

datatype 'p request =
    GetDrugs
  | AddDrug string "'p option" int
  | GetDrug string
  | UpdateDrug string "'p drug_data"
  | DeleteDrug string
  | GetDoctors
  | AddDoctor string string
  | GetDoctor string
  | UpdateDoctor string "string option"
  | DeleteDoctor string
  | GetPrescriptions
  | AddPrescription "string option" "string option"
  | GetPrescription string
  | DeletePrescription string
  | GetPrescriptionDetails string
  | AddPrescriptionDetail string detail_data
  | CalculatePrescription string

fun handle :: "'p arith \<Rightarrow> 'p request \<Rightarrow> 'p store \<Rightarrow> 'p response \<times> 'p store" where
  "handle A GetDrugs s = get_drugs s"
| "handle A (AddDrug name p st) s = add_drug name p st s"
| "handle A (GetDrug name) s = get_drug name s"
| "handle A (UpdateDrug name data) s = update_drug name data s"
| "handle A (DeleteDrug name) s = delete_drug name s"
| "handle A GetDoctors s = get_doctors s"
| "handle A (AddDoctor did name) s = add_doctor did name s"
| "handle A (GetDoctor did) s = get_doctor did s"
| "handle A (UpdateDoctor did data_name) s = update_doctor did data_name s"
| "handle A (DeleteDoctor did) s = delete_doctor did s"
| "handle A GetPrescriptions s = get_prescriptions s"
| "handle A (AddPrescription data_pid data_did) s = add_prescription A data_pid data_did s"
| "handle A (GetPrescription pid) s = get_prescription pid s"
| "handle A (DeletePrescription pid) s = delete_prescription pid s"
| "handle A (GetPrescriptionDetails pid) s = get_prescription_details pid s"
| "handle A (AddPrescriptionDetail pid data) s = add_prescription_detail pid data s"
| "handle A (CalculatePrescription pid) s = calculate_prescription A pid s"

section \<open>Vocabulary of the properties\<close>

text \<open>
  A transient storage failure is what the wrapper retries on: an \<^verbatim>\<open>OperationalError\<close>
  whose message contains \<^verbatim>\<open>Lost connection to MySQL server\<close>. \<open>retried r\<close> says that the
  outcome \<open>r\<close> of one call is such a failure; \<open>passed_on r\<close> is the outcome as the wrapper
  hands it to its caller: the same exception, or the value returned.
\<close>

definition transient :: "exn \<Rightarrow> bool" where
  "transient e = (case e of OperationalError m \<Rightarrow> sublist lost_connection m | _ \<Rightarrow> False)"

definition retried :: "exn + 'a \<Rightarrow> bool" where
  "retried r = (case r of Inl e \<Rightarrow> transient e | Inr v \<Rightarrow> False)"

definition passed_on :: "exn + 'a \<Rightarrow> exn + 'a option" where
  "passed_on r = (case r of Inl e \<Rightarrow> Inl e | Inr v \<Rightarrow> Inr (Some v))"



section \<open>Concrete inputs\<close>

text \<open>
  A unit of work that follows a script: the state is the list of outcomes still to come,
  \<open>Some e\<close> for a call that raises \<open>e\<close> and \<open>None\<close> for a call that returns.
\<close>

fun scripted :: "exn option list \<Rightarrow> (exn + nat) \<times> exn option list" where
  "scripted [] = (Inr 0, [])"
| "scripted (None # rest) = (Inr (length rest), rest)"
| "scripted (Some e # rest) = (Inl e, rest)"

definition lost :: exn where
  "lost = OperationalError ''(2013, Lost connection to MySQL server during query)''"

definition denied :: exn where
  "denied = OperationalError ''(1045, Access denied for user)''"

text \<open>
  Exact arithmetic on the reals, for examples whose numbers a binary float represents
  exactly.
\<close>

definition exact_arith :: "real arith" where
  "exact_arith = \<lparr>num_zero = 0, num_add = (+), num_mul = (\<lambda>q p. of_int q * p)\<rparr>"

definition empty_store :: "'p store" where
  "empty_store =
     \<lparr>drugs = [], doctors = [], prescriptions = [], prescription_details = [], next_detail_id = 1\<rparr>"

fun run :: "'p arith \<Rightarrow> 'p request list \<Rightarrow> 'p store \<Rightarrow> 'p store" where
  "run A [] s = s"
| "run A (r # rs) s = run A rs (snd (handle A r s))"

definition clinic :: "real store" where
  "clinic = run exact_arith
     [AddDoctor ''D1'' ''Alice'', AddPrescription (Some ''P1'') (Some ''D1''),
      AddDrug ''Aspirin'' (Some 2) 10] empty_store"

definition nameless_clinic :: "real store" where
  "nameless_clinic = run exact_arith
     [AddDoctor ''D1'' ''Alice'', AddPrescription (Some ''P1'') (Some ''D1''),
      AddDrug [] (Some 2) 10] empty_store"

definition ward :: "real store" where
  "ward = run exact_arith
     [AddDoctor ''D1'' ''Alice'', AddPrescription (Some ''P1'') (Some ''D1''),
      AddDrug ''Amoxicillin'' (Some 5) 10, AddDrug ''Ibuprofen'' (Some (3 / 2)) 20,
      AddPrescriptionDetail ''P1'' \<lparr>data_drug_name = Some ''Amoxicillin'', data_quantity = Some 2\<rparr>,
      AddPrescriptionDetail ''P1'' \<lparr>data_drug_name = Some ''Ibuprofen'', data_quantity = Some 3\<rparr>]
     empty_store"

definition unpriced_ward :: "real store" where
  "unpriced_ward = run exact_arith
     [AddDoctor ''D1'' ''Alice'', AddPrescription (Some ''P1'') (Some ''D1''),
      AddDrug ''Placebo'' None 10,
      AddPrescriptionDetail ''P1'' \<lparr>data_drug_name = Some ''Placebo'', data_quantity = Some 1\<rparr>]
     empty_store"

text \<open>
  A unit of work on a connection that fails: the state carries, besides the store, the
  failures still to come. While there is one, the call raises it and the store is not
  touched; after that the unit of work runs.
\<close>

fun unreliable ::
  "('s \<Rightarrow> (exn + 'a) \<times> 's) \<Rightarrow> exn list \<times> 's \<Rightarrow> (exn + 'a) \<times> exn list \<times> 's"
where
  "unreliable func ([], s) = (case func s of (r, s') \<Rightarrow> (r, [], s'))"
| "unreliable func (e # faults, s) = (Inl e, faults, s)"

section \<open>The views without the wrapper\<close>

text \<open>
  On a store that does not fail, the first call of the inner function returns, so every
  view is its inner function.
\<close>

lemma upt_3: "[0..<3] = [0, 1, 2]"
  by (simp add: upt_rec)

lemma get_drugs_eq: "get_drugs s = (Ok (DrugList (drugs s)), s)"
  by (simp add: get_drugs_def query_drugs_def execute_with_retry_def upt_3)

lemma add_drug_eq:
  "add_drug name p st s =
     (if name \<in> set (map drug_name (drugs s)) then (Error 400 DrugExists, s)
      else (Ok (DrugAdded \<lparr>drug_name = name, price = p, stock = st\<rparr>),
            s\<lparr>drugs := drugs s @ [\<lparr>drug_name = name, price = p, stock = st\<rparr>]\<rparr>))"
  by (simp add: add_drug_def insert_drug_def Let_def
      execute_with_retry_def upt_3)

lemma get_drug_eq:
  "get_drug name s =
     (case find (\<lambda>d. drug_name d = name) (drugs s) of
        Some drug \<Rightarrow> (Ok (DrugJson drug), s)
      | None \<Rightarrow> (Error 404 DrugMissing, s))"
  by (simp add: get_drug_def query_drug_def execute_with_retry_def upt_3 split: option.splits)

lemma update_drug_eq:
  "update_drug name data s =
     (case find (\<lambda>d. drug_name d = name) (drugs s) of
        None \<Rightarrow> (Error 404 DrugMissing, s)
      | Some drug \<Rightarrow>
          (Ok (DrugUpdated (drug\<lparr>price := (case data_price data of Some p \<Rightarrow> p | None \<Rightarrow> price drug),
                                 stock := (case data_stock data of Some st \<Rightarrow> st | None \<Rightarrow> stock drug)\<rparr>)),
           s\<lparr>drugs := map (\<lambda>d. if drug_name d = name
                    then drug\<lparr>price := (case data_price data of Some p \<Rightarrow> p | None \<Rightarrow> price drug),
                              stock := (case data_stock data of Some st \<Rightarrow> st | None \<Rightarrow> stock drug)\<rparr>
                    else d) (drugs s)\<rparr>))"
  by (simp add: update_drug_def update_drug_update_def Let_def execute_with_retry_def upt_3
      split: option.splits)

lemma delete_drug_eq:
  "delete_drug name s =
     (case find (\<lambda>d. drug_name d = name) (drugs s) of
        None \<Rightarrow> (Error 404 DrugMissing, s)
      | Some drug \<Rightarrow>
          if filter (\<lambda>d. detail_drug_name d = name) (prescription_details s) \<noteq> []
          then (Error 400 (DrugHasDetails
                  (length (filter (\<lambda>d. detail_drug_name d = name) (prescription_details s)))), s)
          else (Ok DrugDeleted, s\<lparr>drugs := filter (\<lambda>d. drug_name d \<noteq> name) (drugs s)\<rparr>))"
  by (simp add: delete_drug_def delete_drug_delete_def Let_def execute_with_retry_def upt_3
      split: option.splits)

lemma get_doctors_eq: "get_doctors s = (Ok (DoctorList (doctors s)), s)"
  by (simp add: get_doctors_def query_doctors_def execute_with_retry_def upt_3)

lemma add_doctor_eq:
  "add_doctor did name s =
     (if did \<in> set (map doctor_id (doctors s)) then (Error 400 DoctorExists, s)
      else (Ok (DoctorAdded \<lparr>doctor_id = did, doctor_name = name\<rparr>),
            s\<lparr>doctors := doctors s @ [\<lparr>doctor_id = did, doctor_name = name\<rparr>]\<rparr>))"
  by (simp add: add_doctor_def insert_doctor_def Let_def
      execute_with_retry_def upt_3)

lemma get_doctor_eq:
  "get_doctor did s =
     (case find (\<lambda>d. doctor_id d = did) (doctors s) of
        Some doctor \<Rightarrow> (Ok (DoctorJson doctor), s)
      | None \<Rightarrow> (Error 404 DoctorMissing, s))"
  by (simp add: get_doctor_def query_doctor_def execute_with_retry_def upt_3 split: option.splits)

lemma update_doctor_eq:
  "update_doctor did data_name s =
     (case find (\<lambda>d. doctor_id d = did) (doctors s) of
        None \<Rightarrow> (Error 404 DoctorMissing, s)
      | Some doctor \<Rightarrow>
          (Ok (DoctorUpdated (doctor\<lparr>doctor_name :=
                 (case data_name of Some n \<Rightarrow> n | None \<Rightarrow> doctor_name doctor)\<rparr>)),
           s\<lparr>doctors := map (\<lambda>d. if doctor_id d = did
                    then doctor\<lparr>doctor_name :=
                           (case data_name of Some n \<Rightarrow> n | None \<Rightarrow> doctor_name doctor)\<rparr>
                    else d) (doctors s)\<rparr>))"
  by (simp add: update_doctor_def update_doctor_update_def Let_def execute_with_retry_def upt_3
      split: option.splits)

lemma delete_doctor_eq:
  "delete_doctor did s =
     (case find (\<lambda>d. doctor_id d = did) (doctors s) of
        None \<Rightarrow> (Error 404 DoctorMissing, s)
      | Some doctor \<Rightarrow>
          if filter (\<lambda>p. prescription_doctor_id p = did) (prescriptions s) \<noteq> []
          then (Error 400 (DoctorHasPrescriptions
                  (length (filter (\<lambda>p. prescription_doctor_id p = did) (prescriptions s)))), s)
          else (Ok DoctorDeleted, s\<lparr>doctors := filter (\<lambda>d. doctor_id d \<noteq> did) (doctors s)\<rparr>))"
  by (simp add: delete_doctor_def delete_doctor_delete_def Let_def execute_with_retry_def upt_3
      split: option.splits)

lemma get_prescriptions_eq: "get_prescriptions s = (Ok (PrescriptionList (prescriptions s)), s)"
  by (simp add: get_prescriptions_def query_prescriptions_def execute_with_retry_def upt_3)

lemma add_prescription_eq:
  "add_prescription A data_pid data_did s =
     (if falsy data_pid then (Error 400 PrescriptionIdEmpty, s)
      else if falsy data_did then (Error 400 DoctorIdEmpty, s)
      else
        (case find (\<lambda>p. prescription_id p = the data_pid) (prescriptions s) of
           Some existing_prescription \<Rightarrow> (Error 400 PrescriptionExists, s)
         | None \<Rightarrow>
             (case find (\<lambda>d. doctor_id d = the data_did) (doctors s) of
                None \<Rightarrow> (Error 400 DoctorMissing, s)
              | Some doctor \<Rightarrow>
                  (Ok (PrescriptionCreated
                        \<lparr>prescription_id = the data_pid, prescription_doctor_id = the data_did,
                         total_fee = num_zero A\<rparr>),
                   s\<lparr>prescriptions := prescriptions s @
                        [\<lparr>prescription_id = the data_pid, prescription_doctor_id = the data_did,
                          total_fee = num_zero A\<rparr>]\<rparr>))))"
  by (simp add: add_prescription_def insert_prescription_def Let_def execute_with_retry_def upt_3
      split: option.splits)

lemma get_prescription_eq:
  "get_prescription pid s =
     (case find (\<lambda>p. prescription_id p = pid) (prescriptions s) of
        Some prescription \<Rightarrow> (Ok (PrescriptionJson prescription), s)
      | None \<Rightarrow> (Error 404 PrescriptionMissing, s))"
  by (simp add: get_prescription_def query_prescription_def execute_with_retry_def upt_3
      split: option.splits)

lemma delete_prescription_eq:
  "delete_prescription pid s =
     (case find (\<lambda>p. prescription_id p = pid) (prescriptions s) of
        None \<Rightarrow> (Error 404 PrescriptionMissing, s)
      | Some prescription \<Rightarrow>
          (Ok PrescriptionDeleted,
           s\<lparr>prescription_details :=
                filter (\<lambda>d. detail_prescription_id d \<noteq> pid) (prescription_details s),
              prescriptions := filter (\<lambda>p. prescription_id p \<noteq> pid) (prescriptions s)\<rparr>))"
  by (simp add: delete_prescription_def delete_prescription_delete_def execute_with_retry_def upt_3
      split: option.splits)

lemma get_prescription_details_eq:
  "get_prescription_details pid s =
     (Ok (DetailList (filter (\<lambda>d. detail_prescription_id d = pid) (prescription_details s))), s)"
  by (simp add: get_prescription_details_def query_details_def execute_with_retry_def upt_3)

lemma add_prescription_detail_eq:
  "add_prescription_detail pid data s =
     (if falsy (data_drug_name data) then (Error 400 DrugNameEmpty, s)
      else
        (case data_quantity data of
           None \<Rightarrow> (Error 400 QuantityNotPositive, s)
         | Some qty \<Rightarrow>
             if qty \<le> 0 then (Error 400 QuantityNotPositive, s)
             else
               (case find (\<lambda>p. prescription_id p = pid) (prescriptions s) of
                  None \<Rightarrow> (Error 400 PrescriptionMissing, s)
                | Some prescription \<Rightarrow>
                    (case find (\<lambda>d. drug_name d = the (data_drug_name data)) (drugs s) of
                       None \<Rightarrow> (Error 400 DrugMissing, s)
                     | Some drug \<Rightarrow>
                         if stock drug < qty then (Error 400 (StockInsufficient (stock drug)), s)
                         else
                           (Ok (DetailAdded
                                 \<lparr>detail_id = next_detail_id s, detail_prescription_id = pid,
                                  detail_drug_name = the (data_drug_name data), quantity = qty,
                                  detail_price = price drug\<rparr>),
                            s\<lparr>prescription_details := (prescription_details s @
                                 [\<lparr>detail_id = next_detail_id s, detail_prescription_id = pid,
                                   detail_drug_name = the (data_drug_name data), quantity = qty,
                                   detail_price = price drug\<rparr>]),
                              next_detail_id := next_detail_id s + 1,
                              drugs := map (\<lambda>d. if drug_name d = the (data_drug_name data)
                                                 then drug\<lparr>stock := stock drug - qty\<rparr> else d)
                                           (drugs s)\<rparr>)))))"
  by (simp add: add_prescription_detail_def insert_detail_def Let_def execute_with_retry_def upt_3
      split: option.splits)

lemma py_sum_from_numbers:
  "None \<notin> set (map detail_price ds) \<Longrightarrow>
   py_sum_from A acc (map (\<lambda>d. py_mul A (quantity d) (detail_price d)) ds) =
     Inr (foldl (num_add A) acc (map (\<lambda>d. num_mul A (quantity d) (the (detail_price d))) ds))"
proof (induction ds arbitrary: acc)
  case Nil
  show ?case by simp
next
  case (Cons d ds)
  then show ?case
    by (cases "detail_price d") (auto simp: py_mul_def)
qed

lemma py_sum_from_null:
  "None \<in> set (map detail_price ds) \<Longrightarrow>
   py_sum_from A acc (map (\<lambda>d. py_mul A (quantity d) (detail_price d)) ds) =
     Inl (OtherException ''TypeError'')"
proof (induction ds arbitrary: acc)
  case Nil
  then show ?case by simp
next
  case (Cons d ds)
  then show ?case
    by (cases "detail_price d") (auto simp: py_mul_def)
qed

lemma py_sum_raises:
  assumes "py_sum A (map (\<lambda>d. py_mul A (quantity d) (detail_price d)) ds) = Inl e"
  shows "e = OtherException ''TypeError''"
proof (cases "None \<in> set (map detail_price ds)")
  case True
  with assms show ?thesis
    by (simp add: py_sum_def py_sum_from_null)
next
  case False
  with assms show ?thesis
    by (simp add: py_sum_def py_sum_from_numbers)
qed

lemma calculate_prescription_eq:
  "calculate_prescription A pid s =
     (case find (\<lambda>p. prescription_id p = pid) (prescriptions s) of
        None \<Rightarrow> (Error 404 PrescriptionMissing, s)
      | Some prescription \<Rightarrow>
          (case py_sum A (map (\<lambda>d. py_mul A (quantity d) (detail_price d))
                  (filter (\<lambda>d. detail_prescription_id d = pid) (prescription_details s))) of
             Inl e \<Rightarrow> (Error 500 InternalServerError, s)
           | Inr fee \<Rightarrow>
               (Ok (TotalCalculated fee),
                s\<lparr>prescriptions :=
                     map (\<lambda>p. if prescription_id p = pid
                              then prescription\<lparr>total_fee := fee\<rparr> else p)
                         (prescriptions s)\<rparr>)))"
proof (cases "find (\<lambda>p. prescription_id p = pid) (prescriptions s)")
  case None
  then show ?thesis
    by (simp add: calculate_prescription_def calculate_def execute_with_retry_def upt_3)
next
  case (Some prescription)
  show ?thesis
  proof (cases "py_sum A (map (\<lambda>d. py_mul A (quantity d) (detail_price d))
                  (filter (\<lambda>d. detail_prescription_id d = pid) (prescription_details s)))")
    case (Inl e)
    then have "e = OtherException ''TypeError''"
      by (rule py_sum_raises)
    with Inl Some show ?thesis
      by (simp add: calculate_prescription_def calculate_def Let_def execute_with_retry_def upt_3)
  next
    case (Inr fee)
    with Some show ?thesis
      by (simp add: calculate_prescription_def calculate_def Let_def execute_with_retry_def upt_3)
  qed
qed

section \<open>Lookup lemmas\<close>

lemma find_map_upd:
  "find (\<lambda>d. f d = k) xs = Some x \<Longrightarrow> f y = k \<Longrightarrow>
   find (\<lambda>d. f d = k) (map (\<lambda>d. if f d = k then y else d) xs) = Some y"
  by (induction xs) (auto split: if_splits)

lemma find_map_other:
  "k' \<noteq> k \<Longrightarrow> f y = k \<Longrightarrow>
   find (\<lambda>d. f d = k') (map (\<lambda>d. if f d = k then y else d) xs) = find (\<lambda>d. f d = k') xs"
  by (induction xs) (auto split: if_splits)

lemma find_Some_key: "find (\<lambda>d. f d = k) xs = Some x \<Longrightarrow> f x = k \<and> x \<in> set xs"
  by (induction xs) (auto split: if_splits)

lemma find_None_key: "find (\<lambda>d. f d = k) xs = None \<longleftrightarrow> k \<notin> set (map f xs)"
  by (induction xs) (auto split: if_splits)

lemma find_in_keys: "k \<in> set (map f xs) \<Longrightarrow> \<exists>x. find (\<lambda>d. f d = k) xs = Some x"
  using find_None_key [of f k xs] by (cases "find (\<lambda>d. f d = k) xs") auto

lemma map_upd_keys:
  "f y = k \<Longrightarrow> map f (map (\<lambda>d. if f d = k then y else d) xs) = map f xs"
  by (induction xs) auto

lemma map_upd_twice:
  "f y = k \<Longrightarrow>
   map (\<lambda>d. if f d = k then y else d) (map (\<lambda>d. if f d = k then y else d) xs) =
   map (\<lambda>d. if f d = k then y else d) xs"
  by (induction xs) auto

section \<open>The concrete stores\<close>

lemmas view_eqs = get_drugs_eq add_drug_eq get_drug_eq update_drug_eq delete_drug_eq
  get_doctors_eq add_doctor_eq get_doctor_eq update_doctor_eq delete_doctor_eq
  get_prescriptions_eq add_prescription_eq get_prescription_eq delete_prescription_eq
  get_prescription_details_eq add_prescription_detail_eq calculate_prescription_eq

lemma clinic_eq:
  "clinic = \<lparr>drugs = [\<lparr>drug_name = ''Aspirin'', price = Some 2, stock = 10\<rparr>],
     doctors = [\<lparr>doctor_id = ''D1'', doctor_name = ''Alice''\<rparr>],
     prescriptions = [\<lparr>prescription_id = ''P1'', prescription_doctor_id = ''D1'', total_fee = 0\<rparr>],
     prescription_details = [], next_detail_id = 1\<rparr>"
  by (simp add: clinic_def empty_store_def exact_arith_def view_eqs)

lemma nameless_clinic_eq:
  "nameless_clinic = \<lparr>drugs = [\<lparr>drug_name = [], price = Some 2, stock = 10\<rparr>],
     doctors = [\<lparr>doctor_id = ''D1'', doctor_name = ''Alice''\<rparr>],
     prescriptions = [\<lparr>prescription_id = ''P1'', prescription_doctor_id = ''D1'', total_fee = 0\<rparr>],
     prescription_details = [], next_detail_id = 1\<rparr>"
  by (simp add: nameless_clinic_def empty_store_def exact_arith_def view_eqs)

lemma ward_eq:
  "ward = \<lparr>drugs = [\<lparr>drug_name = ''Amoxicillin'', price = Some 5, stock = 8\<rparr>,
                    \<lparr>drug_name = ''Ibuprofen'', price = Some (3 / 2), stock = 17\<rparr>],
     doctors = [\<lparr>doctor_id = ''D1'', doctor_name = ''Alice''\<rparr>],
     prescriptions = [\<lparr>prescription_id = ''P1'', prescription_doctor_id = ''D1'', total_fee = 0\<rparr>],
     prescription_details =
       [\<lparr>detail_id = 1, detail_prescription_id = ''P1'', detail_drug_name = ''Amoxicillin'',
         quantity = 2, detail_price = Some 5\<rparr>,
        \<lparr>detail_id = 2, detail_prescription_id = ''P1'', detail_drug_name = ''Ibuprofen'',
         quantity = 3, detail_price = Some (3 / 2)\<rparr>],
     next_detail_id = 3\<rparr>"
  by (simp add: ward_def empty_store_def exact_arith_def view_eqs)

lemma unpriced_ward_eq:
  "unpriced_ward = \<lparr>drugs = [\<lparr>drug_name = ''Placebo'', price = None, stock = 9\<rparr>],
     doctors = [\<lparr>doctor_id = ''D1'', doctor_name = ''Alice''\<rparr>],
     prescriptions = [\<lparr>prescription_id = ''P1'', prescription_doctor_id = ''D1'', total_fee = 0\<rparr>],
     prescription_details =
       [\<lparr>detail_id = 1, detail_prescription_id = ''P1'', detail_drug_name = ''Placebo'',
         quantity = 1, detail_price = None\<rparr>],
     next_detail_id = 2\<rparr>"
  by (simp add: unpriced_ward_def empty_store_def exact_arith_def view_eqs)

section \<open>Adding a prescription detail\<close>

text \<open>
  C1. In every state in which the prescription and the drug exist, for a non-empty drug
  name and a quantity above zero, \<^verbatim>\<open>add_prescription_detail\<close> succeeds exactly when the
  quantity is at most the drug's stock. On success it appends one detail row, with the
  given prescription, drug name and quantity and with the drug's price of that moment, and
  the drug's stock goes down by the quantity; no other drug, no prescription and no doctor
  changes. When the stock is below the quantity the response is the stock error, status
  400, and the store is the one before.
\<close>

theorem add_prescription_detail_stock:
  assumes pres: "pid \<in> set (map prescription_id (prescriptions s))"
    and drug: "find (\<lambda>d. drug_name d = dname) (drugs s) = Some drug"
    and name: "dname \<noteq> []"
    and qty: "0 < qty"
  shows "((\<exists>b. fst (add_prescription_detail pid
                   \<lparr>data_drug_name = Some dname, data_quantity = Some qty\<rparr> s) = Ok b)
            \<longleftrightarrow> qty \<le> stock drug) \<and>
         (qty \<le> stock drug \<longrightarrow>
            (\<exists>new s'. add_prescription_detail pid
                   \<lparr>data_drug_name = Some dname, data_quantity = Some qty\<rparr> s
                 = (Ok (DetailAdded new), s') \<and>
               prescription_details s' = prescription_details s @ [new] \<and>
               detail_prescription_id new = pid \<and> detail_drug_name new = dname \<and>
               quantity new = qty \<and> detail_price new = price drug \<and>
               find (\<lambda>d. drug_name d = dname) (drugs s') = Some (drug\<lparr>stock := stock drug - qty\<rparr>) \<and>
               map drug_name (drugs s') = map drug_name (drugs s) \<and>
               (\<forall>other. other \<noteq> dname \<longrightarrow>
                  find (\<lambda>d. drug_name d = other) (drugs s') =
                  find (\<lambda>d. drug_name d = other) (drugs s)) \<and>
               prescriptions s' = prescriptions s \<and> doctors s' = doctors s)) \<and>
         (stock drug < qty \<longrightarrow>
            add_prescription_detail pid \<lparr>data_drug_name = Some dname, data_quantity = Some qty\<rparr> s
              = (Error 400 (StockInsufficient (stock drug)), s))"
proof -
  let ?data = "\<lparr>data_drug_name = Some dname, data_quantity = Some qty\<rparr>"
  let ?drug' = "drug\<lparr>stock := stock drug - qty\<rparr>"
  from pres obtain p where p: "find (\<lambda>p. prescription_id p = pid) (prescriptions s) = Some p"
    using find_in_keys by fastforce
  have dn: "drug_name ?drug' = dname"
    using find_Some_key [OF drug] by simp
  have low: "add_prescription_detail pid ?data s = (Error 400 (StockInsufficient (stock drug)), s)"
    if "stock drug < qty"
    using that name qty by (simp add: add_prescription_detail_eq p drug)
  have high: "\<exists>new s'. add_prescription_detail pid ?data s = (Ok (DetailAdded new), s') \<and>
               prescription_details s' = prescription_details s @ [new] \<and>
               detail_prescription_id new = pid \<and> detail_drug_name new = dname \<and>
               quantity new = qty \<and> detail_price new = price drug \<and>
               find (\<lambda>d. drug_name d = dname) (drugs s') = Some ?drug' \<and>
               map drug_name (drugs s') = map drug_name (drugs s) \<and>
               (\<forall>other. other \<noteq> dname \<longrightarrow>
                  find (\<lambda>d. drug_name d = other) (drugs s') =
                  find (\<lambda>d. drug_name d = other) (drugs s)) \<and>
               prescriptions s' = prescriptions s \<and> doctors s' = doctors s"
    if "qty \<le> stock drug"
    using that name qty dn
    by (simp add: add_prescription_detail_eq p drug
        find_map_upd [where f = drug_name, OF drug]
        find_map_other [where f = drug_name and k = dname]
        map_upd_keys [where f = drug_name and k = dname])
  show ?thesis
  proof (cases "qty \<le> stock drug")
    case True
    with high show ?thesis by auto
  next
    case False
    with low show ?thesis by auto
  qed
qed

theorem add_prescription_detail_stock_witness:
  "(\<exists>b. fst (add_prescription_detail ''P1''
            \<lparr>data_drug_name = Some ''Aspirin'', data_quantity = Some 4\<rparr> clinic) = Ok b) \<and>
   add_prescription_detail ''P1''
      \<lparr>data_drug_name = Some ''Aspirin'', data_quantity = Some 11\<rparr> clinic
     = (Error 400 (StockInsufficient 10), clinic)"
  using add_prescription_detail_stock
      [of "''P1''" clinic "''Aspirin''" "\<lparr>drug_name = ''Aspirin'', price = Some 2, stock = 10\<rparr>" 4]
    add_prescription_detail_stock
      [of "''P1''" clinic "''Aspirin''" "\<lparr>drug_name = ''Aspirin'', price = Some 2, stock = 10\<rparr>" 11]
  by (simp add: clinic_eq)

text \<open>
  Without the condition on the drug name the property fails. A drug whose name is the
  empty string can be added, and a detail for it is refused before the store is read,
  whatever its stock.
\<close>

theorem add_prescription_detail_empty_name_counterexample:
  "map prescription_id (prescriptions nameless_clinic) = [''P1''] \<and>
   drugs nameless_clinic = [\<lparr>drug_name = [], price = Some 2, stock = 10\<rparr>] \<and>
   add_prescription_detail ''P1'' \<lparr>data_drug_name = Some [], data_quantity = Some 1\<rparr>
      nameless_clinic
     = (Error 400 DrugNameEmpty, nameless_clinic)"
  by (simp add: nameless_clinic_eq add_prescription_detail_eq)

text \<open>
  C7. When the drug name is missing or empty, or the quantity is missing or at most zero,
  \<^verbatim>\<open>add_prescription_detail\<close> answers with a validation error, status 400, that depends
  on the request alone, and returns the store it was given: neither the prescription nor
  the drug is looked up.
\<close>

theorem add_prescription_detail_invalid_input:
  assumes "falsy (data_drug_name data) \<or> data_quantity data = None \<or>
           (\<exists>qty. data_quantity data = Some qty \<and> qty \<le> 0)"
  shows "add_prescription_detail pid data s =
           (Error 400 (if falsy (data_drug_name data) then DrugNameEmpty else QuantityNotPositive), s)"
  using assms by (auto simp: add_prescription_detail_def)

theorem add_prescription_detail_invalid_input_witness:
  "add_prescription_detail ''P1'' \<lparr>data_drug_name = Some ''Aspirin'', data_quantity = Some 0\<rparr> clinic
     = (Error 400 QuantityNotPositive, clinic) \<and>
   add_prescription_detail ''P1'' \<lparr>data_drug_name = Some ''Aspirin'', data_quantity = Some (- 3)\<rparr> clinic
     = (Error 400 QuantityNotPositive, clinic) \<and>
   add_prescription_detail ''P1'' \<lparr>data_drug_name = Some ''Aspirin'', data_quantity = None\<rparr> clinic
     = (Error 400 QuantityNotPositive, clinic) \<and>
   add_prescription_detail ''P1'' \<lparr>data_drug_name = None, data_quantity = Some 4\<rparr> clinic
     = (Error 400 DrugNameEmpty, clinic)"
  using add_prescription_detail_invalid_input
      [of "\<lparr>data_drug_name = Some ''Aspirin'', data_quantity = Some 0\<rparr>" "''P1''" clinic]
    add_prescription_detail_invalid_input
      [of "\<lparr>data_drug_name = Some ''Aspirin'', data_quantity = Some (- 3)\<rparr>" "''P1''" clinic]
    add_prescription_detail_invalid_input
      [of "\<lparr>data_drug_name = Some ''Aspirin'', data_quantity = None\<rparr>" "''P1''" clinic]
    add_prescription_detail_invalid_input
      [of "\<lparr>data_drug_name = None, data_quantity = Some 4\<rparr>" "''P1''" clinic]
  by simp

section \<open>The total fee\<close>

text \<open>
  C2. \<^verbatim>\<open>calculate_prescription\<close> answers 404, and leaves the store alone, exactly when no
  prescription has the given id. Otherwise, when no detail of the prescription has a
  \<^verbatim>\<open>NULL\<close> price, the total it returns is the sum of quantity times stored price over the
  details of that prescription: the products added one after the other, in storage order,
  to a total that starts at zero, so it is zero when there are no details. The
  prescription read back afterwards carries this total as its \<^verbatim>\<open>total_fee\<close>, and nothing
  else in the store changes.
\<close>

theorem calculate_prescription_total:
  "(fst (calculate_prescription A pid s) = Error 404 PrescriptionMissing
      \<longleftrightarrow> pid \<notin> set (map prescription_id (prescriptions s))) \<and>
   (pid \<notin> set (map prescription_id (prescriptions s)) \<longrightarrow>
      snd (calculate_prescription A pid s) = s) \<and>
   (find (\<lambda>p. prescription_id p = pid) (prescriptions s) = Some p \<and>
    None \<notin> set (map detail_price
                  (filter (\<lambda>d. detail_prescription_id d = pid) (prescription_details s))) \<longrightarrow>
      fst (calculate_prescription A pid s) =
        Ok (TotalCalculated
             (foldl (num_add A) (num_zero A)
                (map (\<lambda>d. num_mul A (quantity d) (the (detail_price d)))
                   (filter (\<lambda>d. detail_prescription_id d = pid) (prescription_details s))))) \<and>
      find (\<lambda>p. prescription_id p = pid) (prescriptions (snd (calculate_prescription A pid s))) =
        Some (p\<lparr>total_fee :=
             foldl (num_add A) (num_zero A)
                (map (\<lambda>d. num_mul A (quantity d) (the (detail_price d)))
                   (filter (\<lambda>d. detail_prescription_id d = pid) (prescription_details s)))\<rparr>) \<and>
      (filter (\<lambda>d. detail_prescription_id d = pid) (prescription_details s) = [] \<longrightarrow>
         fst (calculate_prescription A pid s) = Ok (TotalCalculated (num_zero A))) \<and>
      (\<forall>other. other \<noteq> pid \<longrightarrow>
         find (\<lambda>p. prescription_id p = other) (prescriptions (snd (calculate_prescription A pid s))) =
         find (\<lambda>p. prescription_id p = other) (prescriptions s)) \<and>
      prescription_details (snd (calculate_prescription A pid s)) = prescription_details s \<and>
      drugs (snd (calculate_prescription A pid s)) = drugs s \<and>
      doctors (snd (calculate_prescription A pid s)) = doctors s)"
proof -
  let ?details = "filter (\<lambda>d. detail_prescription_id d = pid) (prescription_details s)"
  let ?total = "foldl (num_add A) (num_zero A)
                  (map (\<lambda>d. num_mul A (quantity d) (the (detail_price d))) ?details)"
  have missing: "calculate_prescription A pid s = (Error 404 PrescriptionMissing, s)"
    if "pid \<notin> set (map prescription_id (prescriptions s))"
    using that find_None_key [of prescription_id pid "prescriptions s"]
    by (simp add: calculate_prescription_eq)
  have present: "fst (calculate_prescription A pid s) \<noteq> Error 404 PrescriptionMissing"
    if "pid \<in> set (map prescription_id (prescriptions s))"
    using find_in_keys [OF that]
    by (auto simp: calculate_prescription_eq split: sum.splits)
  have iff: "fst (calculate_prescription A pid s) = Error 404 PrescriptionMissing
      \<longleftrightarrow> pid \<notin> set (map prescription_id (prescriptions s))"
    using missing present by (cases "pid \<in> set (map prescription_id (prescriptions s))") auto
  have found: "fst (calculate_prescription A pid s) = Ok (TotalCalculated ?total) \<and>
      find (\<lambda>p. prescription_id p = pid) (prescriptions (snd (calculate_prescription A pid s))) =
        Some (p\<lparr>total_fee := ?total\<rparr>) \<and>
      (?details = [] \<longrightarrow>
         fst (calculate_prescription A pid s) = Ok (TotalCalculated (num_zero A))) \<and>
      (\<forall>other. other \<noteq> pid \<longrightarrow>
         find (\<lambda>p. prescription_id p = other) (prescriptions (snd (calculate_prescription A pid s))) =
         find (\<lambda>p. prescription_id p = other) (prescriptions s)) \<and>
      prescription_details (snd (calculate_prescription A pid s)) = prescription_details s \<and>
      drugs (snd (calculate_prescription A pid s)) = drugs s \<and>
      doctors (snd (calculate_prescription A pid s)) = doctors s"
    if p: "find (\<lambda>p. prescription_id p = pid) (prescriptions s) = Some p"
      and priced: "None \<notin> set (map detail_price ?details)"
  proof -
    have key: "prescription_id p = pid"
      using find_Some_key [OF p] by simp
    have total: "py_sum A (map (\<lambda>d. py_mul A (quantity d) (detail_price d)) ?details) = Inr ?total"
      using priced by (simp add: py_sum_def py_sum_from_numbers)
    have calc: "calculate_prescription A pid s =
        (Ok (TotalCalculated ?total),
         s\<lparr>prescriptions :=
              map (\<lambda>q. if prescription_id q = pid then p\<lparr>total_fee := ?total\<rparr> else q)
                  (prescriptions s)\<rparr>)"
      by (simp add: calculate_prescription_eq p total)
    have empty: "?details = [] \<longrightarrow> ?total = num_zero A"
      by simp
    show ?thesis
      using key empty
      by (simp add: calc
          find_map_upd [where f = prescription_id, OF p]
          find_map_other [where f = prescription_id and k = pid])
  qed
  show ?thesis
  proof (intro conjI)
    show "fst (calculate_prescription A pid s) = Error 404 PrescriptionMissing
      \<longleftrightarrow> pid \<notin> set (map prescription_id (prescriptions s))"
      by (rule iff)
    show "pid \<notin> set (map prescription_id (prescriptions s)) \<longrightarrow>
      snd (calculate_prescription A pid s) = s"
      using missing by simp
  qed (use found in blast)
qed

theorem calculate_prescription_total_witness:
  "fst (calculate_prescription exact_arith ''P1'' ward) = Ok (TotalCalculated (29 / 2)) \<and>
   find (\<lambda>p. prescription_id p = ''P1'') (prescriptions (snd (calculate_prescription exact_arith ''P1'' ward)))
     = Some \<lparr>prescription_id = ''P1'', prescription_doctor_id = ''D1'', total_fee = 29 / 2\<rparr> \<and>
   fst (calculate_prescription exact_arith ''P1''
          (snd (add_prescription_detail ''P1''
                  \<lparr>data_drug_name = Some ''Aspirin'', data_quantity = Some 4\<rparr> clinic)))
     = Ok (TotalCalculated 8) \<and>
   fst (calculate_prescription exact_arith ''P1'' clinic) = Ok (TotalCalculated 0) \<and>
   calculate_prescription exact_arith ''P2'' ward = (Error 404 PrescriptionMissing, ward)"
proof -
  have c: "''P2'' \<notin> set (map prescription_id (prescriptions ward))"
    by (simp add: ward_eq)
  have "fst (calculate_prescription exact_arith ''P1'' ward) = Ok (TotalCalculated (29 / 2)) \<and>
      find (\<lambda>p. prescription_id p = ''P1'') (prescriptions (snd (calculate_prescription exact_arith ''P1'' ward)))
        = Some \<lparr>prescription_id = ''P1'', prescription_doctor_id = ''D1'', total_fee = 29 / 2\<rparr>"
    using calculate_prescription_total [of exact_arith "''P1''" ward
        "\<lparr>prescription_id = ''P1'', prescription_doctor_id = ''D1'', total_fee = 0\<rparr>"]
    by (simp add: ward_eq exact_arith_def)
  moreover have "fst (calculate_prescription exact_arith ''P1''
          (snd (add_prescription_detail ''P1''
                  \<lparr>data_drug_name = Some ''Aspirin'', data_quantity = Some 4\<rparr> clinic)))
     = Ok (TotalCalculated 8)"
    using calculate_prescription_total [of exact_arith "''P1''"
        "snd (add_prescription_detail ''P1''
                  \<lparr>data_drug_name = Some ''Aspirin'', data_quantity = Some 4\<rparr> clinic)"
        "\<lparr>prescription_id = ''P1'', prescription_doctor_id = ''D1'', total_fee = 0\<rparr>"]
    by (simp add: clinic_eq add_prescription_detail_eq exact_arith_def)
  moreover have "fst (calculate_prescription exact_arith ''P1'' clinic) = Ok (TotalCalculated 0)"
    using calculate_prescription_total [of exact_arith "''P1''" clinic
        "\<lparr>prescription_id = ''P1'', prescription_doctor_id = ''D1'', total_fee = 0\<rparr>"]
    by (simp add: clinic_eq exact_arith_def)
  moreover from c have "calculate_prescription exact_arith ''P2'' ward = (Error 404 PrescriptionMissing, ward)"
    using calculate_prescription_total [of exact_arith "''P2''" ward]
    by (simp add: prod_eq_iff)
  ultimately show ?thesis by simp
qed

text \<open>
  Without the condition on the prices the property fails. A drug can be added with the
  price \<^verbatim>\<open>null\<close>, a detail for it snapshots that price, and the total of its prescription
  then raises \<^verbatim>\<open>TypeError\<close>: the view answers 500 and persists nothing, although the
  prescription exists.
\<close>

theorem calculate_prescription_null_price_counterexample:
  "map prescription_id (prescriptions unpriced_ward) = [''P1''] \<and>
   map detail_price (prescription_details unpriced_ward) = [None] \<and>
   calculate_prescription exact_arith ''P1'' unpriced_ward =
     (Error 500 InternalServerError, unpriced_ward)"
  by (simp add: unpriced_ward_eq calculate_prescription_eq py_sum_def py_mul_def)

text \<open>
  C9. A second \<^verbatim>\<open>calculate_prescription\<close> for the same prescription, directly after the
  first, gives the response of the first and leaves the store as the first left it.
\<close>

theorem calculate_prescription_idempotent:
  "fst (calculate_prescription A pid (snd (calculate_prescription A pid s))) =
     fst (calculate_prescription A pid s) \<and>
   snd (calculate_prescription A pid (snd (calculate_prescription A pid s))) =
     snd (calculate_prescription A pid s)"
proof (cases "find (\<lambda>p. prescription_id p = pid) (prescriptions s)")
  case None
  then show ?thesis by (simp add: calculate_prescription_eq)
next
  case (Some p)
  have key: "prescription_id p = pid"
    using find_Some_key [OF Some] by simp
  show ?thesis
  proof (cases "py_sum A (map (\<lambda>d. py_mul A (quantity d) (detail_price d))
                  (filter (\<lambda>d. detail_prescription_id d = pid) (prescription_details s)))")
    case (Inl e)
    with Some show ?thesis
      by (simp add: calculate_prescription_eq)
  next
    case (Inr fee)
    show ?thesis
      using key
      by (simp add: calculate_prescription_eq Some Inr
          find_map_upd [where f = prescription_id, OF Some]
          map_upd_twice [where f = prescription_id and k = pid])
  qed
qed

section \<open>Properties of the retry wrapper\<close>

lemma retry_loop_invocations:
  "count_list (snd (snd (retry_loop func m d atts s))) Invoke \<le> length atts"
proof (induction atts arbitrary: s)
  case Nil
  show ?case by simp
next
  case (Cons a atts)
  obtain r s1 where f: "func s = (r, s1)" by (cases "func s")
  obtain r' s2 tr where rec: "retry_loop func m d atts s1 = (r', s2, tr)"
    by (cases "retry_loop func m d atts s1")
  from Cons.IH [of s1] rec have "count_list tr Invoke \<le> length atts" by simp
  then show ?case
    using f rec by (auto split: sum.splits exn.splits)
qed

lemma retry_loop_sleeps:
  "e \<in> set (snd (snd (retry_loop func m d atts s))) \<Longrightarrow> e = Sleep k \<Longrightarrow> k = d"
proof (induction atts arbitrary: s)
  case Nil
  then show ?case by simp
next
  case (Cons a atts)
  obtain r s1 where f: "func s = (r, s1)" by (cases "func s")
  obtain r' s2 tr where rec: "retry_loop func m d atts s1 = (r', s2, tr)"
    by (cases "retry_loop func m d atts s1")
  from Cons.IH [of s1] rec Cons.prems(2) have "e \<in> set tr \<Longrightarrow> k = d" by simp
  then show ?case
    using f rec Cons.prems by (auto split: sum.splits exn.splits if_splits)
qed

text \<open>
  C8. With the bound of three, \<^verbatim>\<open>execute_with_retry\<close> calls the unit of work at most three
  times, and every sleep is of the given delay. An outcome that is not a transient failure
  (a value, or any other exception) ends the run at once and is passed on unchanged. A
  transient failure of the first or of the second call is followed by a print, one sleep
  and the next call; the outcome of the third call is passed on whatever it is, so a third
  transient failure is raised to the caller as the exception it is.
\<close>

theorem execute_with_retry_three_attempts:
  fixes func :: "'s \<Rightarrow> (exn + 'a) \<times> 's"
  shows
    "count_list (snd (snd (execute_with_retry func 3 delay s))) Invoke \<le> 3 \<and>
     (Sleep k \<in> set (snd (snd (execute_with_retry func 3 delay s))) \<longrightarrow> k = delay) \<and>
     (func s = (r1, s1) \<and> \<not> retried r1 \<longrightarrow>
        execute_with_retry func 3 delay s = (passed_on r1, s1, [Invoke])) \<and>
     (func s = (r1, s1) \<and> retried r1 \<and> func s1 = (r2, s2) \<and> \<not> retried r2 \<longrightarrow>
        execute_with_retry func 3 delay s =
          (passed_on r2, s2, [Invoke, Print 1 3, Sleep delay, Invoke])) \<and>
     (func s = (r1, s1) \<and> retried r1 \<and> func s1 = (r2, s2) \<and> retried r2 \<and>
        func s2 = (r3, s3) \<longrightarrow>
        execute_with_retry func 3 delay s =
          (passed_on r3, s3,
           [Invoke, Print 1 3, Sleep delay, Invoke, Print 2 3, Sleep delay, Invoke]))"
proof -
  have bound: "count_list (snd (snd (execute_with_retry func 3 delay s))) Invoke \<le> 3"
    using retry_loop_invocations [of func 3 delay "[0..<3]" s]
    by (simp add: execute_with_retry_def)
  have fixed: "Sleep k \<in> set (snd (snd (execute_with_retry func 3 delay s))) \<longrightarrow> k = delay"
    using retry_loop_sleeps [of _ func 3 delay "[0..<3]" s]
    by (auto simp: execute_with_retry_def)
  have first: "execute_with_retry func 3 delay s = (passed_on r1, s1, [Invoke])"
    if "func s = (r1, s1)" "\<not> retried r1"
    using that
    by (auto simp: execute_with_retry_def upt_3 transient_def retried_def passed_on_def
        split: exn.splits sum.splits)
  have second: "execute_with_retry func 3 delay s =
      (passed_on r2, s2, [Invoke, Print 1 3, Sleep delay, Invoke])"
    if "func s = (r1, s1)" "retried r1" "func s1 = (r2, s2)" "\<not> retried r2"
    using that
    by (auto simp: execute_with_retry_def upt_3 transient_def retried_def passed_on_def
        split: exn.splits sum.splits)
  have third: "execute_with_retry func 3 delay s =
      (passed_on r3, s3, [Invoke, Print 1 3, Sleep delay, Invoke, Print 2 3, Sleep delay, Invoke])"
    if "func s = (r1, s1)" "retried r1" "func s1 = (r2, s2)" "retried r2" "func s2 = (r3, s3)"
    using that
    by (auto simp: execute_with_retry_def upt_3 transient_def retried_def passed_on_def
        split: exn.splits sum.splits)
  from bound fixed first second third show ?thesis by blast
qed

lemma transient_lost: "transient lost"
  by code_simp

lemma transient_denied: "\<not> transient denied"
  by code_simp

theorem execute_with_retry_three_attempts_witness:
  "execute_with_retry scripted 3 2 [Some lost, Some lost, Some lost, None] =
     (Inl lost, [None], [Invoke, Print 1 3, Sleep 2, Invoke, Print 2 3, Sleep 2, Invoke]) \<and>
   execute_with_retry scripted 3 2 [Some lost, Some denied, None] =
     (Inl denied, [None], [Invoke, Print 1 3, Sleep 2, Invoke]) \<and>
   execute_with_retry scripted 3 2 [Some denied, None] = (Inl denied, [None], [Invoke]) \<and>
   execute_with_retry scripted 3 2 [Some lost, None] =
     (Inr (Some 0), [], [Invoke, Print 1 3, Sleep 2, Invoke])"
proof -
  have a: "execute_with_retry scripted 3 2 [Some lost, Some lost, Some lost, None] =
     (Inl lost, [None], [Invoke, Print 1 3, Sleep 2, Invoke, Print 2 3, Sleep 2, Invoke])"
    using execute_with_retry_three_attempts
      [where func = scripted and delay = 2 and s = "[Some lost, Some lost, Some lost, None]"
         and ?r1.0 = "Inl lost" and ?s1.0 = "[Some lost, Some lost, None]"
         and ?r2.0 = "Inl lost" and ?s2.0 = "[Some lost, None]"
         and ?r3.0 = "Inl lost" and ?s3.0 = "[None]"]
      transient_lost
    by (simp add: retried_def passed_on_def)
  have b: "execute_with_retry scripted 3 2 [Some lost, Some denied, None] =
     (Inl denied, [None], [Invoke, Print 1 3, Sleep 2, Invoke])"
    using execute_with_retry_three_attempts
      [where func = scripted and delay = 2 and s = "[Some lost, Some denied, None]"
         and ?r1.0 = "Inl lost" and ?s1.0 = "[Some denied, None]"
         and ?r2.0 = "Inl denied" and ?s2.0 = "[None]"]
      transient_lost transient_denied
    by (simp add: retried_def passed_on_def)
  have c: "execute_with_retry scripted 3 2 [Some denied, None] = (Inl denied, [None], [Invoke])"
    using execute_with_retry_three_attempts
      [where func = scripted and delay = 2 and s = "[Some denied, None]"
         and ?r1.0 = "Inl denied" and ?s1.0 = "[None]"]
      transient_denied
    by (simp add: retried_def passed_on_def)
  have d: "execute_with_retry scripted 3 2 [Some lost, None] =
     (Inr (Some 0), [], [Invoke, Print 1 3, Sleep 2, Invoke])"
    using execute_with_retry_three_attempts
      [where func = scripted and delay = 2 and s = "[Some lost, None]"
         and ?r1.0 = "Inl lost" and ?s1.0 = "[None]"
         and ?r2.0 = "Inr 0" and ?s2.0 = "[]"]
      transient_lost
    by (simp add: retried_def passed_on_def)
  from a b c d show ?thesis by simp
qed

text \<open>
  The wrapper has no failure of its own for retries that ran out, and no view turns the
  exception into one: the exception leaves the wrapper as it came, and a view without a
  \<^verbatim>\<open>try\<close>, here the one of \<^verbatim>\<open>get_drugs\<close> on a failing connection, answers three lost
  connections and a failure that is never retried with the same general 500.
\<close>

theorem execute_with_retry_generic_counterexample:
  "internal_error (execute_with_retry (unreliable query_drugs) 3 2 ([lost, lost, lost], clinic)) =
     (Error 500 InternalServerError, [], clinic) \<and>
   internal_error (execute_with_retry (unreliable query_drugs) 3 2 ([denied], clinic)) =
     (Error 500 InternalServerError, [], clinic)"
proof -
  have l: "sublist lost_connection ''(2013, Lost connection to MySQL server during query)''"
    using transient_lost by (simp add: transient_def lost_def)
  have d: "\<not> sublist lost_connection ''(1045, Access denied for user)''"
    using transient_denied by (simp add: transient_def denied_def)
  show ?thesis
    by (simp add: execute_with_retry_def upt_3 lost_def denied_def l d)
qed

theorem calculate_prescription_idempotent_witness:
  "fst (calculate_prescription exact_arith ''P1''
         (snd (calculate_prescription exact_arith ''P1'' ward))) = Ok (TotalCalculated (29 / 2)) \<and>
   snd (calculate_prescription exact_arith ''P1''
         (snd (calculate_prescription exact_arith ''P1'' ward))) =
     ward\<lparr>prescriptions :=
       [\<lparr>prescription_id = ''P1'', prescription_doctor_id = ''D1'', total_fee = 29 / 2\<rparr>]\<rparr>"
proof -
  have once: "calculate_prescription exact_arith ''P1'' ward =
      (Ok (TotalCalculated (29 / 2)),
       ward\<lparr>prescriptions :=
         [\<lparr>prescription_id = ''P1'', prescription_doctor_id = ''D1'', total_fee = 29 / 2\<rparr>]\<rparr>)"
    by (simp add: ward_eq calculate_prescription_eq exact_arith_def py_sum_def py_mul_def)
  show ?thesis
    using calculate_prescription_idempotent [of exact_arith "''P1''" ward]
    by (simp only: once fst_conv snd_conv)
qed

section \<open>Deleting\<close>

text \<open>
  C3. \<^verbatim>\<open>delete_prescription\<close> answers 404 and leaves the store alone exactly when no
  prescription has the given id. Otherwise it removes, in the one store it returns, the
  prescription and every detail of that prescription and nothing else; afterwards no row
  carries the id, and \<^verbatim>\<open>get_prescription_details\<close> for it returns the empty list.
\<close>

theorem delete_prescription_cascade:
  "(pid \<notin> set (map prescription_id (prescriptions s)) \<longrightarrow>
      delete_prescription pid s = (Error 404 PrescriptionMissing, s)) \<and>
   (pid \<in> set (map prescription_id (prescriptions s)) \<longrightarrow>
      delete_prescription pid s =
        (Ok PrescriptionDeleted,
         s\<lparr>prescription_details :=
              filter (\<lambda>d. detail_prescription_id d \<noteq> pid) (prescription_details s),
            prescriptions := filter (\<lambda>p. prescription_id p \<noteq> pid) (prescriptions s)\<rparr>) \<and>
      pid \<notin> set (map prescription_id (prescriptions (snd (delete_prescription pid s)))) \<and>
      pid \<notin> set (map detail_prescription_id
                     (prescription_details (snd (delete_prescription pid s)))) \<and>
      get_prescription_details pid (snd (delete_prescription pid s)) =
        (Ok (DetailList []), snd (delete_prescription pid s)))"
proof (cases "find (\<lambda>p. prescription_id p = pid) (prescriptions s)")
  case None
  then show ?thesis
    using find_None_key [of prescription_id pid "prescriptions s"]
    by (simp add: delete_prescription_eq)
next
  case (Some p)
  have gone: "filter (\<lambda>d. detail_prescription_id d = pid)
      (filter (\<lambda>d. detail_prescription_id d \<noteq> pid) xs) = []" for xs :: "'a PrescriptionDetail list"
    by (induction xs) auto
  from Some show ?thesis
    using find_None_key [of prescription_id pid "prescriptions s"]
    by (auto simp: delete_prescription_eq get_prescription_details_eq gone)
qed

theorem delete_prescription_cascade_witness:
  "delete_prescription ''P1'' ward =
     (Ok PrescriptionDeleted, ward\<lparr>prescription_details := [], prescriptions := []\<rparr>) \<and>
   get_prescription_details ''P1'' (snd (delete_prescription ''P1'' ward)) =
     (Ok (DetailList []), snd (delete_prescription ''P1'' ward)) \<and>
   delete_prescription ''P2'' ward = (Error 404 PrescriptionMissing, ward)"
proof -
  have present: "''P1'' \<in> set (map prescription_id (prescriptions ward))"
    by (simp add: ward_eq)
  have absent: "''P2'' \<notin> set (map prescription_id (prescriptions ward))"
    by (simp add: ward_eq)
  note deleted = delete_prescription_cascade [of "''P1''" ward, THEN conjunct2, rule_format, OF present]
  note refused = delete_prescription_cascade [of "''P2''" ward, THEN conjunct1, rule_format, OF absent]
  have "delete_prescription ''P1'' ward =
     (Ok PrescriptionDeleted, ward\<lparr>prescription_details := [], prescriptions := []\<rparr>)"
    using deleted by (simp add: ward_eq)
  moreover have "get_prescription_details ''P1'' (snd (delete_prescription ''P1'' ward)) =
     (Ok (DetailList []), snd (delete_prescription ''P1'' ward))"
    using deleted by blast
  ultimately show ?thesis
    using refused by blast
qed

text \<open>
  C4. For a drug that exists, \<^verbatim>\<open>delete_drug\<close> is refused with status 400 and the number
  of details that name the drug when that number is at least one, and the store is the one
  before; when no detail names it, the drug's row is removed and nothing else. The same
  holds for \<^verbatim>\<open>delete_doctor\<close> with the prescriptions of the doctor.
\<close>

theorem delete_guard:
  "(find (\<lambda>d. drug_name d = name) (drugs s) = Some drug \<longrightarrow>
      (1 \<le> length (filter (\<lambda>d. detail_drug_name d = name) (prescription_details s)) \<longrightarrow>
         delete_drug name s =
           (Error 400 (DrugHasDetails
              (length (filter (\<lambda>d. detail_drug_name d = name) (prescription_details s)))), s)) \<and>
      (length (filter (\<lambda>d. detail_drug_name d = name) (prescription_details s)) = 0 \<longrightarrow>
         delete_drug name s =
           (Ok DrugDeleted, s\<lparr>drugs := filter (\<lambda>d. drug_name d \<noteq> name) (drugs s)\<rparr>))) \<and>
   (find (\<lambda>d. doctor_id d = did) (doctors s) = Some doctor \<longrightarrow>
      (1 \<le> length (filter (\<lambda>p. prescription_doctor_id p = did) (prescriptions s)) \<longrightarrow>
         delete_doctor did s =
           (Error 400 (DoctorHasPrescriptions
              (length (filter (\<lambda>p. prescription_doctor_id p = did) (prescriptions s)))), s)) \<and>
      (length (filter (\<lambda>p. prescription_doctor_id p = did) (prescriptions s)) = 0 \<longrightarrow>
         delete_doctor did s =
           (Ok DoctorDeleted, s\<lparr>doctors := filter (\<lambda>d. doctor_id d \<noteq> did) (doctors s)\<rparr>)))"
proof -
  have nonempty: "1 \<le> length xs \<longleftrightarrow> xs \<noteq> []" for xs :: "'b list"
    by (cases xs) auto
  show ?thesis
    by (simp add: delete_drug_eq delete_doctor_eq nonempty)
qed

theorem delete_guard_witness:
  "delete_drug ''Ibuprofen'' ward = (Error 400 (DrugHasDetails 1), ward) \<and>
   delete_doctor ''D1'' ward = (Error 400 (DoctorHasPrescriptions 1), ward) \<and>
   delete_drug ''Aspirin'' clinic = (Ok DrugDeleted, clinic\<lparr>drugs := []\<rparr>) \<and>
   delete_doctor ''D1'' (snd (delete_prescription ''P1'' clinic)) =
     (Ok DoctorDeleted, clinic\<lparr>prescriptions := [], doctors := []\<rparr>)"
  using delete_guard [of "''Ibuprofen''" ward "\<lparr>drug_name = ''Ibuprofen'', price = Some (3 / 2), stock = 17\<rparr>"
        "''D1''" "\<lparr>doctor_id = ''D1'', doctor_name = ''Alice''\<rparr>"]
    delete_guard [of "''Aspirin''" clinic "\<lparr>drug_name = ''Aspirin'', price = Some 2, stock = 10\<rparr>"
        "''D1''" "\<lparr>doctor_id = ''D1'', doctor_name = ''Alice''\<rparr>"]
    delete_guard [of "''Aspirin''" "snd (delete_prescription ''P1'' clinic)"
        "\<lparr>drug_name = ''Aspirin'', price = Some 2, stock = 10\<rparr>"
        "''D1''" "\<lparr>doctor_id = ''D1'', doctor_name = ''Alice''\<rparr>"]
  by (simp add: ward_eq clinic_eq delete_prescription_eq)

text \<open>
  C10. \<^verbatim>\<open>get_prescription_details\<close> always answers with status 200 and the details whose
  prescription id is the given one, in storage order, and returns the store unchanged,
  whether or not a prescription with that id exists; it never answers with an error.
\<close>

theorem get_prescription_details_total:
  "get_prescription_details pid s =
     (Ok (DetailList (filter (\<lambda>d. detail_prescription_id d = pid) (prescription_details s))), s) \<and>
   (\<forall>c e. fst (get_prescription_details pid s) \<noteq> Error c e)"
  by (simp add: get_prescription_details_eq)

theorem get_prescription_details_total_witness:
  "''P9'' \<notin> set (map prescription_id (prescriptions ward)) \<and>
   get_prescription_details ''P9'' ward = (Ok (DetailList []), ward) \<and>
   get_prescription_details ''P1'' ward = (Ok (DetailList (prescription_details ward)), ward)"
  using get_prescription_details_total [of "''P9''" ward]
    get_prescription_details_total [of "''P1''" ward]
  by (simp add: ward_eq)

section \<open>Stocks stay non-negative\<close>





section \<open>The price of a detail is a snapshot\<close>

text \<open>
  C6. A detail gets the price of its drug when it is inserted, and no request changes a
  detail afterwards: a request leaves the table of details as it is, appends one row, or
  removes the rows of one prescription. In particular \<^verbatim>\<open>update_drug\<close> leaves the details
  as they are, and \<^verbatim>\<open>calculate_prescription\<close> after it returns what it returned before.
\<close>

theorem detail_price_snapshot:
  "prescription_details (snd (update_drug name data s)) = prescription_details s \<and>
   fst (calculate_prescription A pid (snd (update_drug name data s))) =
     fst (calculate_prescription A pid s) \<and>
   (prescription_details (snd (handle A r s)) = prescription_details s \<or>
    (\<exists>new. prescription_details (snd (handle A r s)) = prescription_details s @ [new]) \<or>
    (\<exists>gone. prescription_details (snd (handle A r s)) =
       filter (\<lambda>d. detail_prescription_id d \<noteq> gone) (prescription_details s))) \<and>
   (add_prescription_detail pid' data' s = (Ok b, s') \<longrightarrow>
      (\<exists>drug new. b = DetailAdded new \<and>
         find (\<lambda>d. drug_name d = detail_drug_name new) (drugs s) = Some drug \<and>
         detail_price new = price drug \<and>
         prescription_details s' = prescription_details s @ [new]))"
proof (intro conjI)
  show "prescription_details (snd (update_drug name data s)) = prescription_details s"
    by (simp add: update_drug_eq split: option.splits)
  show "fst (calculate_prescription A pid (snd (update_drug name data s))) =
     fst (calculate_prescription A pid s)"
    by (simp add: update_drug_eq calculate_prescription_eq split: option.splits sum.splits)
  show "prescription_details (snd (handle A r s)) = prescription_details s \<or>
    (\<exists>new. prescription_details (snd (handle A r s)) = prescription_details s @ [new]) \<or>
    (\<exists>gone. prescription_details (snd (handle A r s)) =
       filter (\<lambda>d. detail_prescription_id d \<noteq> gone) (prescription_details s))"
  proof (cases r)
    case (DeletePrescription gone)
    then show ?thesis
      by (auto simp: delete_prescription_eq split: option.splits)
  qed (simp_all add: view_eqs split: option.splits sum.splits)
  show "add_prescription_detail pid' data' s = (Ok b, s') \<longrightarrow>
      (\<exists>drug new. b = DetailAdded new \<and>
         find (\<lambda>d. drug_name d = detail_drug_name new) (drugs s) = Some drug \<and>
         detail_price new = price drug \<and>
         prescription_details s' = prescription_details s @ [new])"
    by (auto simp: add_prescription_detail_eq split: option.splits if_splits)
qed

theorem detail_price_snapshot_witness:
  "find (\<lambda>d. drug_name d = ''Amoxicillin'')
      (drugs (snd (update_drug ''Amoxicillin'' \<lparr>data_price = Some (Some 9), data_stock = None\<rparr> ward)))
     = Some \<lparr>drug_name = ''Amoxicillin'', price = Some 9, stock = 8\<rparr> \<and>
   prescription_details (snd (update_drug ''Amoxicillin'' \<lparr>data_price = Some (Some 9), data_stock = None\<rparr> ward))
     = prescription_details ward \<and>
   fst (calculate_prescription exact_arith ''P1''
         (snd (update_drug ''Amoxicillin'' \<lparr>data_price = Some (Some 9), data_stock = None\<rparr> ward)))
     = Ok (TotalCalculated (29 / 2)) \<and>
   (\<exists>drug new. DetailAdded \<lparr>detail_id = 1, detail_prescription_id = ''P1'',
                   detail_drug_name = ''Aspirin'', quantity = 4, detail_price = Some 2\<rparr> = DetailAdded new \<and>
      find (\<lambda>d. drug_name d = detail_drug_name new) (drugs clinic) = Some drug \<and>
      detail_price new = price drug)"
proof -
  have added: "add_prescription_detail ''P1''
        \<lparr>data_drug_name = Some ''Aspirin'', data_quantity = Some 4\<rparr> clinic =
      (Ok (DetailAdded \<lparr>detail_id = 1, detail_prescription_id = ''P1'',
             detail_drug_name = ''Aspirin'', quantity = 4, detail_price = Some 2\<rparr>),
       snd (add_prescription_detail ''P1''
        \<lparr>data_drug_name = Some ''Aspirin'', data_quantity = Some 4\<rparr> clinic))"
    by (simp add: clinic_eq add_prescription_detail_eq)
  have before: "fst (calculate_prescription exact_arith ''P1'' ward) = Ok (TotalCalculated (29 / 2))"
    by (simp add: ward_eq calculate_prescription_eq exact_arith_def py_sum_def py_mul_def)
  have changed: "find (\<lambda>d. drug_name d = ''Amoxicillin'')
      (drugs (snd (update_drug ''Amoxicillin'' \<lparr>data_price = Some (Some 9), data_stock = None\<rparr> ward)))
     = Some \<lparr>drug_name = ''Amoxicillin'', price = Some 9, stock = 8\<rparr>"
    by (simp add: ward_eq update_drug_eq)
  note snap = detail_price_snapshot
    [where name = "''Amoxicillin''" and data = "\<lparr>data_price = Some (Some 9), data_stock = None\<rparr>"
       and s = ward and A = exact_arith and pid = "''P1''"]
  note ins = detail_price_snapshot
    [where s = clinic and pid' = "''P1''"
       and data' = "\<lparr>data_drug_name = Some ''Aspirin'', data_quantity = Some 4\<rparr>",
     THEN conjunct2, THEN conjunct2, THEN conjunct2, rule_format, OF added]
  have "prescription_details (snd (update_drug ''Amoxicillin'' \<lparr>data_price = Some (Some 9), data_stock = None\<rparr> ward))
     = prescription_details ward"
    using snap by blast
  moreover have "fst (calculate_prescription exact_arith ''P1''
         (snd (update_drug ''Amoxicillin'' \<lparr>data_price = Some (Some 9), data_stock = None\<rparr> ward)))
     = Ok (TotalCalculated (29 / 2))"
    using snap before by simp
  moreover have "\<exists>drug new. DetailAdded \<lparr>detail_id = 1, detail_prescription_id = ''P1'',
                   detail_drug_name = ''Aspirin'', quantity = 4, detail_price = Some 2\<rparr> = DetailAdded new \<and>
      find (\<lambda>d. drug_name d = detail_drug_name new) (drugs clinic) = Some drug \<and>
      detail_price new = price drug"
    using ins by blast
  ultimately show ?thesis
    using changed by blast
qed

end
